theory Spec2Isabelle
  imports Main "HOL-Library.Word" "HOL-Library.Sublist" "HOL-Library.Char_ord"
    "HOL-Library.List_Lexorder" "HOL-Library.AList"
begin

section \<open>The template engine of lepo: ProjectBuilder and FileTemplater\<close>

text \<open>
  The development embeds \<^verbatim>\<open>ProjectBuilder\<close> (project-builder.ts) and
  \<^verbatim>\<open>FileTemplater\<close> (src/utils/file-templater.ts). The file system, the
  JavaScript string primitives and the shell are the environment of that code; the
  parts of them the code relies on are modelled in the first subsections.
\<close>

subsection \<open>Paths and the file system\<close>

text \<open>
  An absolute, normalised path is the list of its segments below the root. A
  relative path (\<^verbatim>\<open>step.to\<close>, \<^verbatim>\<open>relativePath\<close>, an entry of
  \<^verbatim>\<open>skipFiles\<close>) stays the string the code holds.
\<close>

type_synonym path = "string list"

type_synonym byte = "8 word"

text \<open>
  A regular file has its bytes and two permission flags (may it be read, may it be
  written); a directory has no content of its own: its listing is the set of paths one
  segment longer, in the order of the table.
\<close>

datatype node = File "byte list" bool bool | Dir

type_synonym filesystem = "(path \<times> node) list"

text \<open>\<^verbatim>\<open>subject.split(sep)\<close> for a separator of one character; \<open>acc\<close> is the piece being read.\<close>

fun split_at :: "char \<Rightarrow> string \<Rightarrow> string \<Rightarrow> string list" where
  "split_at sep acc [] = [acc]"
| "split_at sep acc (c # cs) =
     (if c = sep then acc # split_at sep [] cs else split_at sep (acc @ [c]) cs)"

definition resolve_segment :: "path \<Rightarrow> string \<Rightarrow> path" where
  "resolve_segment p seg =
     (if seg = [] \<or> seg = ''.'' then p
      else if seg = ''..'' then butlast p
      else p @ [seg])"

text \<open>
  \<^verbatim>\<open>path.resolve(base, rel)\<close> of Node for an absolute normalised \<open>base\<close>: an
  absolute \<open>rel\<close> replaces the base, empty and dot segments are dropped, a double dot
  climbs one level.
\<close>

definition path_resolve :: "path \<Rightarrow> string \<Rightarrow> path" where
  "path_resolve base rel =
     foldl resolve_segment
       (case rel of [] \<Rightarrow> base | c # _ \<Rightarrow> if c = CHR ''/'' then [] else base)
       (split_at CHR ''/'' [] rel)"

text \<open>
  \<^verbatim>\<open>path.join(relativePath, file)\<close> for a directory entry name \<open>file\<close>
  (never empty, a dot or a double dot, and free of slashes).
\<close>

definition path_join :: "string \<Rightarrow> string \<Rightarrow> string" where
  "path_join rel file = rel @ ''/'' @ file"

definition path_dirname :: "path \<Rightarrow> path" where
  "path_dirname p = butlast p"

definition existsSync :: "filesystem \<Rightarrow> path \<Rightarrow> bool" where
  "existsSync fs p = (map_of fs p \<noteq> None)"

text \<open>\<^verbatim>\<open>fs.statSync\<close>: the node, or \<open>None\<close> where it throws (no such entry).\<close>

definition statSync :: "filesystem \<Rightarrow> path \<Rightarrow> node option" where
  "statSync fs p = map_of fs p"

fun isFile :: "node \<Rightarrow> bool" where
  "isFile (File c r w) = True"
| "isFile Dir = False"

fun isDirectory :: "node \<Rightarrow> bool" where
  "isDirectory (File c r w) = False"
| "isDirectory Dir = True"

definition children :: "filesystem \<Rightarrow> path \<Rightarrow> string list" where
  "children fs p = map (\<lambda>(q, n). last q) (filter (\<lambda>(q, n). q \<noteq> [] \<and> butlast q = p) fs)"

text \<open>\<^verbatim>\<open>fs.readdirSync\<close>: the entry names, or \<open>None\<close> where it throws.\<close>

definition readdirSync :: "filesystem \<Rightarrow> path \<Rightarrow> string list option" where
  "readdirSync fs p = (case map_of fs p of Some Dir \<Rightarrow> Some (children fs p) | _ \<Rightarrow> None)"

text \<open>
  Text is read and written one byte a character (the ASCII part of UTF-8).
\<close>

definition decode :: "byte list \<Rightarrow> string" where
  "decode bs = map (\<lambda>b. char_of (unat b)) bs"

definition encode :: "string \<Rightarrow> byte list" where
  "encode s = map (\<lambda>c. of_nat (of_char c)) s"

text \<open>
  The operations below return \<open>None\<close> where the call of Node throws. Reading needs a
  readable regular file; writing needs a writable regular file, or a free name in an
  existing directory; copying reads the source and writes the destination, which takes
  the permissions of the source.
\<close>

definition readFileSync :: "filesystem \<Rightarrow> path \<Rightarrow> string option" where
  "readFileSync fs p =
     (case map_of fs p of
        Some (File content r w) \<Rightarrow> if r then Some (decode content) else None
      | _ \<Rightarrow> None)"

definition writable_target :: "filesystem \<Rightarrow> path \<Rightarrow> bool" where
  "writable_target fs p =
     (case map_of fs p of
        Some (File content r w) \<Rightarrow> w
      | Some Dir \<Rightarrow> False
      | None \<Rightarrow> p \<noteq> [] \<and> map_of fs (butlast p) = Some Dir)"

definition writeFileSync :: "filesystem \<Rightarrow> path \<Rightarrow> string \<Rightarrow> filesystem option" where
  "writeFileSync fs p text =
     (if writable_target fs p
      then (case map_of fs p of
              Some (File content r w) \<Rightarrow> Some (AList.update p (File (encode text) r w) fs)
            | _ \<Rightarrow> Some (AList.update p (File (encode text) True True) fs))
      else None)"

definition copyFileSync :: "filesystem \<Rightarrow> path \<Rightarrow> path \<Rightarrow> filesystem option" where
  "copyFileSync fs src dest =
     (case map_of fs src of
        Some (File content r w) \<Rightarrow>
          if r \<and> writable_target fs dest
          then Some (AList.update dest (File content r w) fs)
          else None
      | _ \<Rightarrow> None)"

definition unlinkSync :: "filesystem \<Rightarrow> path \<Rightarrow> filesystem option" where
  "unlinkSync fs p =
     (case map_of fs p of
        Some (File content r w) \<Rightarrow> Some (AList.delete p fs)
      | _ \<Rightarrow> None)"

text \<open>
  \<^verbatim>\<open>fs.mkdirSync(p, {recursive: true})\<close>: every missing ancestor and \<open>p\<close> itself
  become directories; it throws where one of them is a regular file.
\<close>

definition ancestors_and_self :: "path \<Rightarrow> path list" where
  "ancestors_and_self p = map (\<lambda>n. take n p) [0..<Suc (length p)]"

definition add_dir :: "path \<Rightarrow> filesystem \<Rightarrow> filesystem" where
  "add_dir p fs = (if map_of fs p = None then fs @ [(p, Dir)] else fs)"

definition mkdirSync_recursive :: "filesystem \<Rightarrow> path \<Rightarrow> filesystem option" where
  "mkdirSync_recursive fs p =
     (if list_ex (\<lambda>q. case map_of fs q of Some (File c r w) \<Rightarrow> True | _ \<Rightarrow> False)
           (ancestors_and_self p)
      then None
      else Some (fold add_dir (ancestors_and_self p) fs))"

text \<open>
  \<^verbatim>\<open>isEmptyDir\<close> (utils/common.ts): a missing path counts as empty, and so does
  a directory holding nothing but \<^verbatim>\<open>.git\<close>. \<open>None\<close> where
  \<^verbatim>\<open>readdirSync\<close> throws.
\<close>

definition isEmptyDir :: "filesystem \<Rightarrow> path \<Rightarrow> bool option" where
  "isEmptyDir fs p =
     (if \<not> existsSync fs p then Some True
      else (case readdirSync fs p of
              None \<Rightarrow> None
            | Some files \<Rightarrow> Some (length files = 0 \<or> (length files = 1 \<and> files ! 0 = ''.git''))))"

subsection \<open>The binary detector\<close>

text \<open>
  \<^verbatim>\<open>Buffer.alloc(512)\<close> is zero-filled; \<^verbatim>\<open>fd.read(buffer, 0, 512, 0)\<close>
  overwrites its first \<open>bytesRead\<close> bytes with the head of the file.
\<close>

definition fd_read :: "byte list \<Rightarrow> byte list \<times> nat" where
  "fd_read content =
     (let bytesRead = min 512 (length content)
      in (take bytesRead content @ replicate (512 - bytesRead) 0, bytesRead))"

text \<open>
  The scan \<^verbatim>\<open>for (let i = 0; i < bytesRead; i++) if (buffer[i] === 0) return true\<close>.
  An index beyond the buffer reads \<^verbatim>\<open>undefined\<close>, which is not zero.
\<close>

function scan_null :: "byte list \<Rightarrow> nat \<Rightarrow> nat \<Rightarrow> bool" where
  "scan_null buffer bytesRead i =
     (if i < bytesRead \<and> i < length buffer
      then (if buffer ! i = 0 then True else scan_null buffer bytesRead (Suc i))
      else False)"
  by pat_completeness auto
termination
  by (relation "measure (\<lambda>(buffer, bytesRead, i). bytesRead - i)") auto

text \<open>
  \<^verbatim>\<open>isBinary\<close>: opening a missing path, reading a directory or an unreadable
  file throws, and the \<^verbatim>\<open>catch\<close> answers false.
\<close>

definition isBinary :: "filesystem \<Rightarrow> path \<Rightarrow> bool" where
  "isBinary fs filePath =
     (case map_of fs filePath of
        Some (File content r w) \<Rightarrow>
          if r then (case fd_read content of (buffer, bytesRead) \<Rightarrow> scan_null buffer bytesRead 0)
          else False
      | _ \<Rightarrow> False)"

subsection \<open>Steps and the builder\<close>

datatype error =
    ConfigurationError
  | NoStepsConfigured
  | TemplateDirMissing path
  | SourceNotFoundError path
  | UserCancelledError
  | FileSystemError path
  | PrepareCommandError string
  | MergeError
  | HookError
  | ProcessExited
  | OutOfFuel

datatype jsvalue = VBool bool | VNum int | VStr string

text \<open>A \<^verbatim>\<open>VariablesMap\<close>, in the order \<^verbatim>\<open>for (const key in variables)\<close> visits it.\<close>

type_synonym VariablesMap = "(string \<times> jsvalue) list"

datatype version = VersionString string | VersionMap "(string \<times> string) list"

text \<open>
  \<^verbatim>\<open>variables\<close> of a step is a map or an async function; the function is
  modelled by what awaiting it gives.
\<close>

datatype variables_source = VarsMap VariablesMap | VarsFn "error + VariablesMap"

record ProjectBuilderConfig =
  cfg_checkEmpty :: "bool option"
  cfg_override :: "bool option"
  cfg_packageName :: "string option"
  cfg_targetDir :: path
  cfg_version :: "version option"

text \<open>
  The plain fields of \<^verbatim>\<open>TemplateStep\<close>. \<open>None\<close> is an absent
  (\<^verbatim>\<open>undefined\<close>) field. \<open>step_from\<close> is an absolute path; the empty string,
  which JavaScript treats as absent in every test of \<^verbatim>\<open>step.from\<close>, is
  \<open>None\<close> too.
\<close>

record StepFields =
  step_checkEmpty :: "bool option"
  step_from :: "path option"
  step_isMergePackageJson :: "bool option"
  step_override :: "bool option"
  step_packageName :: "string option"
  step_renameFiles :: "(string \<times> string) list option"
  step_skipFiles :: "string list option"
  step_to :: "string option"
  step_variables :: "variables_source option"
  step_version :: "version option"

text \<open>
  A step is its fields and its two hooks. A hook runs on the state \<open>'s\<close> of the
  world, may fail, and returns the new state with the additional steps it yields
  (\<open>None\<close> for \<^verbatim>\<open>void\<close>). The hook's second argument, the step itself, is
  what the closure already holds.
\<close>

datatype 's TemplateStep =
  TemplateStep (step_fields: StepFields)
    (preHook: "(ProjectBuilderConfig \<Rightarrow> 's \<Rightarrow> error + ('s \<times> 's TemplateStep list option)) option")
    (postHook: "(ProjectBuilderConfig \<Rightarrow> 's \<Rightarrow> error + ('s \<times> 's TemplateStep list option)) option")

record 's ProjectBuilder =
  config :: ProjectBuilderConfig
  steps :: "'s TemplateStep list"

definition create :: "ProjectBuilderConfig \<Rightarrow> 's ProjectBuilder" where
  "create cfg = \<lparr>config = cfg, steps = []\<rparr>"

definition addStep :: "'s TemplateStep \<Rightarrow> 's ProjectBuilder \<Rightarrow> error + 's ProjectBuilder" where
  "addStep step b =
     (if step_from (step_fields step) = None \<and> preHook step = None \<and> postHook step = None
      then Inl ConfigurationError
      else Inr (b\<lparr>steps := steps b @ [step]\<rparr>))"

definition addSteps :: "'s TemplateStep list \<Rightarrow> 's ProjectBuilder \<Rightarrow> error + 's ProjectBuilder" where
  "addSteps new_steps b = Inr (b\<lparr>steps := steps b @ new_steps\<rparr>)"

definition no_fields :: StepFields where
  "no_fields = \<lparr>step_checkEmpty = None, step_from = None, step_isMergePackageJson = None,
     step_override = None, step_packageName = None, step_renameFiles = None,
     step_skipFiles = None, step_to = None, step_variables = None, step_version = None\<rparr>"

subsection \<open>JavaScript strings: trim, String, replace\<close>

text \<open>
  Strings are sequences of 8-bit characters; of the white space
  \<^verbatim>\<open>String.prototype.trim\<close> strips, the ASCII part is represented.
\<close>

definition is_space :: "char \<Rightarrow> bool" where
  "is_space c = (c \<in> set [CHR 0x09, CHR 0x0A, CHR 0x0B, CHR 0x0C, CHR 0x0D, CHR 0x20])"

definition trim :: "string \<Rightarrow> string" where
  "trim s = rev (dropWhile is_space (rev (dropWhile is_space s)))"

definition digit_char :: "nat \<Rightarrow> char" where
  "digit_char d = char_of (48 + d)"

function decimal :: "nat \<Rightarrow> string" where
  "decimal n = (if n < 10 then [digit_char n] else decimal (n div 10) @ [digit_char (n mod 10)])"
  by pat_completeness auto
termination
  by (relation "measure id") auto

text \<open>
  \<^verbatim>\<open>String(value)\<close>. Numbers are the integers, printed in decimal as
  JavaScript prints every integer below \<open>10\<^sup>2\<^sup>1\<close> in absolute value.
\<close>

fun String_of :: "jsvalue \<Rightarrow> string" where
  "String_of (VBool b) = (if b then ''true'' else ''false'')"
| "String_of (VNum n) = (if n < 0 then CHR ''-'' # decimal (nat (- n)) else decimal (nat n))"
| "String_of (VStr s) = s"

text \<open>
  The replacement text of \<^verbatim>\<open>replace\<close> and \<^verbatim>\<open>replaceAll\<close> is a template
  (GetSubstitution of ECMAScript): \<^verbatim>\<open>$$\<close> is a dollar, \<^verbatim>\<open>$&\<close> the matched
  text, \<^verbatim>\<open>$`\<close> the subject before the match, \<^verbatim>\<open>$'\<close> the subject after it.
  The patterns of this code have no capture group, so \<^verbatim>\<open>$1\<close> and
  \<^verbatim>\<open>$<name>\<close> stand for themselves.
\<close>

fun expand_replacement :: "string \<Rightarrow> string \<Rightarrow> string \<Rightarrow> string \<Rightarrow> string" where
  "expand_replacement matched pre post [] = []"
| "expand_replacement matched pre post [c] = [c]"
| "expand_replacement matched pre post (c # d # cs) =
     (if c = CHR ''$'' then
        (if d = CHR ''$'' then CHR ''$'' # expand_replacement matched pre post cs
         else if d = CHR ''&'' then matched @ expand_replacement matched pre post cs
         else if d = CHR 0x60 then pre @ expand_replacement matched pre post cs
         else if d = CHR 0x27 then post @ expand_replacement matched pre post cs
         else c # expand_replacement matched pre post (d # cs))
      else c # expand_replacement matched pre post (d # cs))"

text \<open>
  Replacing every match of a literal, left to right and without overlap: what
  \<^verbatim>\<open>subject.replace(new RegExp(literal, 'g'), replacement)\<close> and
  \<^verbatim>\<open>subject.replaceAll(literal, replacement)\<close> do. \<open>pre\<close> is the part of
  the subject already passed. The literals of this code are never empty.
\<close>

function replace_from :: "string \<Rightarrow> string \<Rightarrow> string \<Rightarrow> string \<Rightarrow> string" where
  "replace_from lit repl pre [] = []"
| "replace_from lit repl pre (c # cs) =
     (if lit \<noteq> [] \<and> prefix lit (c # cs)
      then expand_replacement lit pre (drop (length lit) (c # cs)) repl
           @ replace_from lit repl (pre @ lit) (drop (length lit) (c # cs))
      else c # replace_from lit repl (pre @ [c]) cs)"
  by pat_completeness auto
termination
  by (relation "measure (\<lambda>(lit, repl, pre, rest). length rest)") (auto simp: neq_Nil_conv)

definition replaceAll :: "string \<Rightarrow> string \<Rightarrow> string \<Rightarrow> string" where
  "replaceAll lit repl subject = replace_from lit repl [] subject"

text \<open>
  \<^verbatim>\<open>escapeRegExp\<close>: a backslash before each of
  \<^verbatim>\<open>. * + ? ^ $ { } ( ) | [ ] \\<close>.
\<close>

definition regex_special :: "char \<Rightarrow> bool" where
  "regex_special c = (c \<in> set (''.*+?^${}()|[]'' @ [CHR 0x5C]))"

definition escapeRegExp :: "string \<Rightarrow> string" where
  "escapeRegExp str = concat (map (\<lambda>c. if regex_special c then [CHR 0x5C, c] else [c]) str)"

text \<open>
  The literal a pattern matches, for the patterns built of plain characters and
  escaped special characters; \<open>None\<close> for any other pattern.
\<close>

fun regex_literal :: "string \<Rightarrow> string option" where
  "regex_literal [] = Some []"
| "regex_literal [c] = (if regex_special c then None else Some [c])"
| "regex_literal (c # d # cs) =
     (if c = CHR 0x5C
      then (if regex_special d then map_option ((#) d) (regex_literal cs) else None)
      else if regex_special c then None
      else map_option ((#) c) (regex_literal (d # cs)))"

text \<open>
  For comparison, the replacement the specification describes: every occurrence of the
  literal, left to right and without overlap, gives way to the new text as it stands.
\<close>

function splice_all :: "string \<Rightarrow> string \<Rightarrow> string \<Rightarrow> string" where
  "splice_all lit new [] = []"
| "splice_all lit new (c # cs) =
     (if lit \<noteq> [] \<and> prefix lit (c # cs)
      then new @ splice_all lit new (drop (length lit) (c # cs))
      else c # splice_all lit new cs)"
  by pat_completeness auto
termination
  by (relation "measure (\<lambda>(lit, new, rest). length rest)") (auto simp: neq_Nil_conv)

subsection \<open>The placeholder substitutor\<close>

definition placeholder :: "string \<Rightarrow> string" where
  "placeholder key = ''{{'' @ trim key @ ''}}''"

text \<open>
  One round of the loop over the keys:
  \<^verbatim>\<open>text = text.replace(new RegExp(escapeRegExp(placeholder), 'g'), String(variables[key]))\<close>.
\<close>

definition replace_key :: "string \<Rightarrow> jsvalue \<Rightarrow> string \<Rightarrow> string" where
  "replace_key key val text =
     (case regex_literal (escapeRegExp (placeholder key)) of
        Some lit \<Rightarrow> replaceAll lit (String_of val) text
      | None \<Rightarrow> text)"

text \<open>
  The loop \<^verbatim>\<open>for (const key in variables)\<close> of \<^verbatim>\<open>replaceInFile\<close>,
  \<^verbatim>\<open>renamePathWithVariables\<close>, \<^verbatim>\<open>copyTemplateWithVariables\<close> (file
  names) and \<^verbatim>\<open>executePrepareCommands\<close>.
\<close>

definition substitute :: "string \<Rightarrow> VariablesMap \<Rightarrow> string" where
  "substitute text variables = foldl (\<lambda>acc (key, val). replace_key key val acc) text variables"

subsection \<open>Package descriptors\<close>

text \<open>
  A JSON document. An object is the list of its members in the order
  \<^verbatim>\<open>Object.keys\<close> gives them; keys that are array indices, which JavaScript
  moves to the front, are not represented.
\<close>

datatype json =
  JNull | JBool bool | JNum int | JStr string | JArr "json list" | JObj "(string \<times> json) list"

type_synonym descriptor = "(string \<times> json) list"

text \<open>
  \<^verbatim>\<open>JSON.parse\<close> and \<^verbatim>\<open>JSON.stringify(_, null, 2)\<close> belong to the
  JavaScript runtime. \<open>JSON_parse\<close> gives the members of the top-level object of a
  descriptor, \<open>None\<close> where parsing throws. \<open>module_dirname\<close> is
  \<^verbatim>\<open>__dirname\<close> of template.ts, from which \<^verbatim>\<open>templatePath\<close> finds the
  templates. \<open>select_answer\<close> is what the user answers to the prompt about a target
  that is not empty. \<open>spawn\<close> is the child process of a command: how it ends
  (\<^verbatim>\<open>close\<close> with an exit code, \<^verbatim>\<open>close\<close> after a signal, or
  \<^verbatim>\<open>error\<close>) and what it leaves of the file system.
\<close>

datatype exit_status = Exited int | Signalled | SpawnError

datatype answer = Yes | No | Cancel

record runtime =
  JSON_parse :: "string \<Rightarrow> descriptor option"
  JSON_stringify :: "descriptor \<Rightarrow> string"
  module_dirname :: path
  select_answer :: answer
  spawn :: "string \<Rightarrow> string list \<Rightarrow> path \<Rightarrow> filesystem \<Rightarrow> exit_status \<times> filesystem"

fun truthy :: "json \<Rightarrow> bool" where
  "truthy JNull = False"
| "truthy (JBool b) = b"
| "truthy (JNum n) = (n \<noteq> 0)"
| "truthy (JStr s) = (s \<noteq> [])"
| "truthy (JArr xs) = True"
| "truthy (JObj kvs) = True"

text \<open>\<^verbatim>\<open>{ ...targetJson, ...extraJson }\<close>: a key keeps its first place and takes the last value.\<close>

definition spread :: "descriptor \<Rightarrow> descriptor \<Rightarrow> descriptor" where
  "spread targetJson extraJson = foldl (\<lambda>acc (k, v). AList.update k v acc) targetJson extraJson"

text \<open>\<^verbatim>\<open>targetJson.name || extraJson.name\<close>; \<open>None\<close> is \<^verbatim>\<open>undefined\<close>.\<close>

definition merged_name :: "descriptor \<Rightarrow> descriptor \<Rightarrow> json option" where
  "merged_name targetJson extraJson =
     (case map_of targetJson ''name'' of
        Some v \<Rightarrow> if truthy v then Some v else map_of extraJson ''name''
      | None \<Rightarrow> map_of extraJson ''name'')"

text \<open>
  \<^verbatim>\<open>mergedJson.name = ...\<close>: a member set to \<^verbatim>\<open>undefined\<close> is left out by
  \<^verbatim>\<open>JSON.stringify\<close>.
\<close>

definition assign_name :: "json option \<Rightarrow> descriptor \<Rightarrow> descriptor" where
  "assign_name v doc = (case v of Some x \<Rightarrow> AList.update ''name'' x doc | None \<Rightarrow> AList.delete ''name'' doc)"

definition sortedObj :: "(string \<times> json) list \<Rightarrow> (string \<times> json) list" where
  "sortedObj obj = List.map_filter (\<lambda>k. map_option (Pair k) (map_of obj k)) (sort (map fst obj))"

text \<open>
  One round of \<^verbatim>\<open>for (const key of ['scripts', 'dependencies', 'devDependencies'])\<close>.
  \<^verbatim>\<open>typeof\<close> is \<^verbatim>\<open>'object'\<close> for an object, an array and
  \<^verbatim>\<open>null\<close>; \<^verbatim>\<open>Object.keys(null)\<close> throws, and the keys of an array are
  its indices.
\<close>

definition sort_member :: "string \<Rightarrow> descriptor \<Rightarrow> error + descriptor" where
  "sort_member key doc =
     (case map_of doc key of
        Some (JObj obj) \<Rightarrow> Inr (AList.update key (JObj (sortedObj obj)) doc)
      | Some (JArr xs) \<Rightarrow>
          Inr (AList.update key (JObj (map (\<lambda>i. (decimal i, xs ! i)) [0..<length xs])) doc)
      | Some JNull \<Rightarrow> Inl MergeError
      | _ \<Rightarrow> Inr doc)"

fun sort_members :: "string list \<Rightarrow> descriptor \<Rightarrow> error + descriptor" where
  "sort_members [] doc = Inr doc"
| "sort_members (key # keys) doc =
     (case sort_member key doc of Inl e \<Rightarrow> Inl e | Inr doc' \<Rightarrow> sort_members keys doc')"

text \<open>The document \<^verbatim>\<open>mergePackageJson\<close> writes, from the two it parsed.\<close>

definition merge_documents :: "descriptor \<Rightarrow> descriptor \<Rightarrow> error + descriptor" where
  "merge_documents targetJson extraJson =
     sort_members [''scripts'', ''dependencies'', ''devDependencies'']
       (assign_name (merged_name targetJson extraJson) (spread targetJson extraJson))"

definition mergePackageJson :: "runtime \<Rightarrow> filesystem \<Rightarrow> path \<Rightarrow> path \<Rightarrow> error + filesystem" where
  "mergePackageJson rt fs targetPackage extraPackage =
     (if \<not> existsSync fs targetPackage then Inr fs
      else (case readFileSync fs targetPackage of
              None \<Rightarrow> Inl (FileSystemError targetPackage)
            | Some targetText \<Rightarrow>
          (case JSON_parse rt targetText of
              None \<Rightarrow> Inl MergeError
            | Some targetJson \<Rightarrow>
          (case readFileSync fs extraPackage of
              None \<Rightarrow> Inl (FileSystemError extraPackage)
            | Some extraText \<Rightarrow>
          (case JSON_parse rt extraText of
              None \<Rightarrow> Inl MergeError
            | Some extraJson \<Rightarrow>
          (case merge_documents targetJson extraJson of
              Inl e \<Rightarrow> Inl e
            | Inr mergedJson \<Rightarrow>
          (case writeFileSync fs targetPackage (JSON_stringify rt mergedJson @ [CHR 0x0A]) of
              None \<Rightarrow> Inl (FileSystemError targetPackage)
            | Some fs' \<Rightarrow> Inr fs')))))))"



text \<open>\<^verbatim>\<open>ver.includes(tag)\<close>.\<close>

fun str_includes :: "string \<Rightarrow> string \<Rightarrow> bool" where
  "str_includes [] tag = (tag = [])"
| "str_includes (c # cs) tag = (prefix tag (c # cs) \<or> str_includes cs tag)"

definition isStableVersion :: "string \<Rightarrow> bool" where
  "isStableVersion ver =
     list_all (\<lambda>tag. \<not> str_includes ver tag) [''alpha'', ''beta'', ''rc'', ''canary'', ''nightly'']"

definition targetVersion :: "string \<Rightarrow> string" where
  "targetVersion ver = (if isStableVersion ver then CHR ''^'' # ver else ver)"

text \<open>
  \<^verbatim>\<open>if (pkg.dependencies?.[depName]) pkg.dependencies[depName] = ver\<close>, for a
  member that is an object (any other value is left as it is).
\<close>

definition set_dependency :: "string \<Rightarrow> string \<Rightarrow> string \<Rightarrow> descriptor \<Rightarrow> descriptor" where
  "set_dependency member depName ver pkg =
     (case map_of pkg member of
        Some (JObj deps) \<Rightarrow>
          (case map_of deps depName of
             Some v \<Rightarrow> if truthy v
                       then AList.update member (JObj (AList.update depName (JStr ver) deps)) pkg
                       else pkg
           | None \<Rightarrow> pkg)
      | _ \<Rightarrow> pkg)"

definition apply_version_map :: "(string \<times> string) list \<Rightarrow> descriptor \<Rightarrow> descriptor" where
  "apply_version_map vm pkg =
     foldl (\<lambda>acc (depName, ver).
              set_dependency ''devDependencies'' depName ver
                (set_dependency ''dependencies'' depName ver acc)) pkg vm"

text \<open>\<^verbatim>\<open>if (name && name !== '.') pkg.name = name\<close>.\<close>

definition set_package_name :: "string option \<Rightarrow> descriptor \<Rightarrow> descriptor" where
  "set_package_name name pkg =
     (case name of
        Some n \<Rightarrow> if n \<noteq> [] \<and> n \<noteq> ''.'' then AList.update ''name'' (JStr n) pkg else pkg
      | None \<Rightarrow> pkg)"

text \<open>
  The first block of \<^verbatim>\<open>updatePackageJson\<close>:
  \<^verbatim>\<open>if (typeof version === 'string') content = content.replaceAll('workspace:*', targetVersion)\<close>.
\<close>

definition lockVersion :: "version option \<Rightarrow> string \<Rightarrow> string" where
  "lockVersion ver content =
     (case ver of
        Some (VersionString v) \<Rightarrow> replaceAll ''workspace:*'' (targetVersion v) content
      | _ \<Rightarrow> content)"

definition updatePackageJson ::
  "runtime \<Rightarrow> filesystem \<Rightarrow> path \<Rightarrow> version option \<Rightarrow> string option \<Rightarrow> error + filesystem" where
  "updatePackageJson rt fs pkgJsonPath ver name =
     (case readFileSync fs pkgJsonPath of
        None \<Rightarrow> Inl (FileSystemError pkgJsonPath)
      | Some content \<Rightarrow>
          (case JSON_parse rt (lockVersion ver content) of
                None \<Rightarrow> Inl MergeError
              | Some pkg \<Rightarrow>
                  (let pkg1 = (case ver of Some (VersionMap vm) \<Rightarrow> apply_version_map vm pkg | _ \<Rightarrow> pkg);
                       pkg2 = set_package_name name pkg1
                   in case writeFileSync fs pkgJsonPath (JSON_stringify rt pkg2 @ [CHR 0x0A]) of
                        None \<Rightarrow> Inl (FileSystemError pkgJsonPath)
                      | Some fs' \<Rightarrow> Inr fs')))"

subsection \<open>The inheritance resolver\<close>

text \<open>
  The path of an entry \<open>file\<close> of the directory \<open>dir\<close>:
  \<^verbatim>\<open>path.resolve(dir, file)\<close> for a name \<^verbatim>\<open>readdirSync\<close> returned.
\<close>

definition entry_path :: "path \<Rightarrow> string \<Rightarrow> path" where
  "entry_path dir file = dir @ [file]"

definition templatePath :: "runtime \<Rightarrow> string \<Rightarrow> path" where
  "templatePath rt template =
     path_resolve (module_dirname rt) (''../../../templates/template-'' @ template)"

text \<open>\<^verbatim>\<open>file.startsWith('<inherit:') && file.endsWith('>')\<close>.\<close>

definition is_inherit_file :: "string \<Rightarrow> bool" where
  "is_inherit_file file = (prefix ''<inherit:'' file \<and> suffix ''>'' file)"

text \<open>\<^verbatim>\<open>relativePath ? path.join(relativePath, file) : file\<close>.\<close>

definition sub_relative :: "string \<Rightarrow> string \<Rightarrow> string" where
  "sub_relative relativePath file = (if relativePath \<noteq> [] then path_join relativePath file else file)"

text \<open>The warnings and errors the code hands to the logger.\<close>

datatype log_entry =
    CircularInheritance path
  | InheritedTemplateNotFound path
  | InheritanceFailed path
  | InheritanceNamesFailed path
  | ReadDirectoryFailed path
  | ReplaceFailed path
  | PrepareCommandFailed path

definition inherited_step :: "path \<Rightarrow> string \<Rightarrow> VariablesMap \<Rightarrow> 's TemplateStep" where
  "inherited_step inheritedTemplatePath relativePath variables =
     TemplateStep
       (no_fields\<lparr>step_from := Some inheritedTemplatePath, step_to := Some relativePath,
          step_variables := Some (VarsMap variables)\<rparr>) None None"

text \<open>
  What makes the resolver terminate: a directory that can be listed is in the table,
  so marking it processed leaves fewer unprocessed paths.
\<close>

lemma readdirSync_in_table: "readdirSync fs p = Some files \<Longrightarrow> p \<in> fst ` set fs"
  by (auto simp: readdirSync_def split: option.splits node.splits dest: map_of_SomeD
      intro: rev_image_eqI)

lemma unprocessed_decreases:
  assumes "p \<notin> processed" and "p \<in> fst ` set fs"
  shows "card (fst ` set fs - insert p processed) < card (fst ` set fs - processed)"
proof -
  have "fst ` set fs - insert p processed \<subset> fst ` set fs - processed"
    using assms by auto
  then show ?thesis
    by (simp add: psubset_card_mono)
qed

lemma readdir_unprocessed_decreases:
  "p \<notin> processed \<Longrightarrow> readdirSync fs p = Some files \<Longrightarrow>
   card (fst ` set fs - insert p processed) < card (fst ` set fs - processed)"
  by (rule unprocessed_decreases) (auto dest: readdirSync_in_table)

text \<open>
  \<^verbatim>\<open>processInheritanceFiles\<close>, with the loop over the entries as the second
  function. The set of processed templates is passed by value: each recursive call
  gets a copy (\<^verbatim>\<open>new Set(processedTemplates)\<close>) that already holds the current
  directory. An exception inside the loop (\<^verbatim>\<open>statSync\<close>) is caught after the
  loop, so the steps gathered before it are returned.
\<close>

function processInheritanceFiles ::
    "runtime \<Rightarrow> filesystem \<Rightarrow> path \<Rightarrow> VariablesMap \<Rightarrow> path set \<Rightarrow> string
      \<Rightarrow> 's TemplateStep list \<times> log_entry list"
  and inheritance_entries ::
    "runtime \<Rightarrow> filesystem \<Rightarrow> path \<Rightarrow> VariablesMap \<Rightarrow> path set \<Rightarrow> string \<Rightarrow> string list
      \<Rightarrow> 's TemplateStep list \<times> log_entry list"
where
  "processInheritanceFiles rt fs templateDir variables processedTemplates relativePath =
     (if templateDir \<in> processedTemplates then ([], [CircularInheritance templateDir])
      else (case readdirSync fs templateDir of
              None \<Rightarrow> ([], [InheritanceFailed templateDir])
            | Some files \<Rightarrow>
                inheritance_entries rt fs templateDir variables
                  (insert templateDir processedTemplates) relativePath files))"
| "inheritance_entries rt fs templateDir variables processedTemplates relativePath [] = ([], [])"
| "inheritance_entries rt fs templateDir variables processedTemplates relativePath (file # files) =
     (case statSync fs (entry_path templateDir file) of
        None \<Rightarrow> ([], [InheritanceFailed templateDir])
      | Some stat \<Rightarrow>
          if isFile stat \<and> is_inherit_file file then
            (let templateName = butlast (drop 9 file) in
             if templateName \<noteq> [] then
               (let inheritedTemplatePath = templatePath rt templateName in
                if existsSync fs inheritedTemplatePath then
                  (case processInheritanceFiles rt fs inheritedTemplatePath variables
                          processedTemplates relativePath of
                     (nestedInheritanceSteps, log1) \<Rightarrow>
                  (case inheritance_entries rt fs templateDir variables processedTemplates
                          relativePath files of
                     (later, log2) \<Rightarrow>
                       (nestedInheritanceSteps
                          @ [inherited_step inheritedTemplatePath relativePath variables]
                          @ later,
                        log1 @ log2)))
                else
                  (case inheritance_entries rt fs templateDir variables processedTemplates
                          relativePath files of
                     (later, log2) \<Rightarrow>
                       (later, InheritedTemplateNotFound inheritedTemplatePath # log2)))
             else inheritance_entries rt fs templateDir variables processedTemplates
                    relativePath files)
          else if isDirectory stat then
            (case processInheritanceFiles rt fs (entry_path templateDir file) variables
                    processedTemplates (sub_relative relativePath file) of
               (subdirInheritanceSteps, log1) \<Rightarrow>
            (case inheritance_entries rt fs templateDir variables processedTemplates
                    relativePath files of
               (later, log2) \<Rightarrow> (subdirInheritanceSteps @ later, log1 @ log2)))
          else inheritance_entries rt fs templateDir variables processedTemplates
                 relativePath files)"
  by pat_completeness auto

termination
  by (relation "inv_image (less_than <*lex*> less_than)
        (\<lambda>x. case x of
           Inl (rt, fs, templateDir, variables, processed, relativePath) \<Rightarrow>
             (card (fst ` set fs - processed), 0)
         | Inr (rt, fs, templateDir, variables, processed, relativePath, files) \<Rightarrow>
             (card (fst ` set fs - processed), Suc (length files)))")
    (auto simp: readdir_unprocessed_decreases)

declare processInheritanceFiles.simps [simp del]

text \<open>
  What makes the walks without a processed set terminate: a directory entry that can
  be stat'ed is a path of the table one segment longer than its directory.
\<close>

definition deeper :: "filesystem \<Rightarrow> path \<Rightarrow> nat" where
  "deeper fs dir = card {q \<in> fst ` set fs. length dir < length q}"

lemma deeper_entry:
  assumes "statSync fs (entry_path dir file) = Some stat"
  shows "deeper fs (entry_path dir file) < deeper fs dir"
proof -
  have mem: "entry_path dir file \<in> fst ` set fs"
    using assms by (auto simp: statSync_def dest: map_of_SomeD intro: rev_image_eqI)
  have "entry_path dir file \<in> {q \<in> fst ` set fs. length dir < length q}"
    and "entry_path dir file \<notin> {q \<in> fst ` set fs. length (entry_path dir file) < length q}"
    and "{q \<in> fst ` set fs. length (entry_path dir file) < length q}
      \<subseteq> {q \<in> fst ` set fs. length dir < length q}"
    using mem by (auto simp: entry_path_def)
  then have "{q \<in> fst ` set fs. length (entry_path dir file) < length q}
      \<subset> {q \<in> fst ` set fs. length dir < length q}"
    by blast
  then show ?thesis
    unfolding deeper_def by (intro psubset_card_mono) auto
qed




text \<open>Awaiting \<^verbatim>\<open>variables\<close>: the map itself, or what the function resolves to.\<close>

fun resolve_variables :: "variables_source \<Rightarrow> error + VariablesMap" where
  "resolve_variables (VarsMap m) = Inr m"
| "resolve_variables (VarsFn r) = r"



subsection \<open>Prepare commands\<close>

text \<open>
  The state the engine works on: the file system, what was handed to the logger, and
  the commands spawned so far, each with its arguments and working directory.
\<close>

record world =
  w_files :: filesystem
  w_log :: "log_entry list"
  w_commands :: "(string \<times> string list \<times> path) list"

text \<open>
  \<^verbatim>\<open>findPrepareCommandFiles\<close>: the marker files below a directory, in the
  order of the walk.
\<close>

function findPrepareCommandFiles ::
    "filesystem \<Rightarrow> path \<Rightarrow> string \<Rightarrow> path list \<times> log_entry list"
  and prepare_command_entries ::
    "filesystem \<Rightarrow> path \<Rightarrow> string \<Rightarrow> string list \<Rightarrow> path list \<times> log_entry list"
where
  "findPrepareCommandFiles fs dir relativePath =
     (if \<not> existsSync fs dir then ([], [])
      else (case readdirSync fs dir of
              None \<Rightarrow> ([], [ReadDirectoryFailed dir])
            | Some files \<Rightarrow> prepare_command_entries fs dir relativePath files))"
| "prepare_command_entries fs dir relativePath [] = ([], [])"
| "prepare_command_entries fs dir relativePath (file # files) =
     (case statSync fs (entry_path dir file) of
        None \<Rightarrow> ([], [ReadDirectoryFailed dir])
      | Some stat \<Rightarrow>
          if isFile stat \<and> file = ''<prepare_command>'' then
            (case prepare_command_entries fs dir relativePath files of
               (later, log2) \<Rightarrow> (entry_path dir file # later, log2))
          else if isDirectory stat then
            (case findPrepareCommandFiles fs (entry_path dir file)
                    (sub_relative relativePath file) of
               (subdirFiles, log1) \<Rightarrow>
            (case prepare_command_entries fs dir relativePath files of
               (later, log2) \<Rightarrow> (subdirFiles @ later, log1 @ log2)))
          else prepare_command_entries fs dir relativePath files)"
  by pat_completeness auto
termination
  by (relation "inv_image (less_than <*lex*> less_than <*lex*> less_than)
        (\<lambda>x. case x of
           Inl (fs, dir, relativePath) \<Rightarrow> (deeper fs dir, 1, 0)
         | Inr (fs, dir, relativePath, files) \<Rightarrow> (deeper fs dir, 0, length files))")
    (auto simp: deeper_entry)

declare findPrepareCommandFiles.simps [simp del]

text \<open>
  \<^verbatim>\<open>executeCommand\<close>: the command is split at spaces and spawned; the promise
  resolves when the process closes with code 0 and rejects otherwise. The result is the
  error thrown, if any, and the state the call leaves.
\<close>

definition executeCommand :: "runtime \<Rightarrow> string \<Rightarrow> path \<Rightarrow> world \<Rightarrow> error option \<times> world" where
  "executeCommand rt command cwd w =
     (case split_at CHR '' '' [] command of
        [] \<Rightarrow> (Some (PrepareCommandError command), w)
      | cmd # args \<Rightarrow>
          (case spawn rt cmd args cwd (w_files w) of
             (status, fs') \<Rightarrow>
               (if status = Exited 0 then None else Some (PrepareCommandError command),
                w\<lparr>w_files := fs', w_commands := w_commands w @ [(cmd, args, cwd)]\<rparr>)))"

text \<open>The body of the \<^verbatim>\<open>try\<close> of \<^verbatim>\<open>executePrepareCommands\<close>, for one marker.\<close>

definition prepare_command :: "filesystem \<Rightarrow> VariablesMap \<Rightarrow> path \<Rightarrow> string option" where
  "prepare_command fs variables commandFile =
     (case readFileSync fs commandFile of
        None \<Rightarrow> None
      | Some text \<Rightarrow>
          Some (if length variables > 0 then substitute (trim text) variables else trim text))"

definition run_prepare_command ::
  "runtime \<Rightarrow> VariablesMap \<Rightarrow> path \<Rightarrow> world \<Rightarrow> error option \<times> world" where
  "run_prepare_command rt variables commandFile w =
     (case prepare_command (w_files w) variables commandFile of
        None \<Rightarrow> (Some (FileSystemError commandFile), w)
      | Some commandContent \<Rightarrow>
          (case (if commandContent \<noteq> []
                 then executeCommand rt commandContent (path_dirname commandFile) w
                 else (None, w)) of
             (Some e, w1) \<Rightarrow> (Some e, w1)
           | (None, w1) \<Rightarrow>
               (case unlinkSync (w_files w1) commandFile of
                  None \<Rightarrow> (Some (FileSystemError commandFile), w1)
                | Some fs' \<Rightarrow> (None, w1\<lparr>w_files := fs'\<rparr>))))"

text \<open>
  The loop over the markers; the \<^verbatim>\<open>catch\<close> logs the failure and throws it
  again, which ends the loop.
\<close>

fun run_prepare_commands ::
  "runtime \<Rightarrow> VariablesMap \<Rightarrow> path list \<Rightarrow> world \<Rightarrow> error option \<times> world" where
  "run_prepare_commands rt variables [] w = (None, w)"
| "run_prepare_commands rt variables (commandFile # later) w =
     (case run_prepare_command rt variables commandFile w of
        (Some e, w1) \<Rightarrow> (Some e, w1\<lparr>w_log := w_log w1 @ [PrepareCommandFailed commandFile]\<rparr>)
      | (None, w1) \<Rightarrow> run_prepare_commands rt variables later w1)"

definition executePrepareCommands ::
  "runtime \<Rightarrow> path \<Rightarrow> VariablesMap \<Rightarrow> world \<Rightarrow> error option \<times> world" where
  "executePrepareCommands rt targetDir variables w =
     (case findPrepareCommandFiles (w_files w) targetDir [] of
        (prepareCommandFiles, log1) \<Rightarrow>
          run_prepare_commands rt variables prepareCommandFiles (w\<lparr>w_log := w_log w @ log1\<rparr>))"

subsection \<open>The copy engine\<close>

text \<open>
  \<^verbatim>\<open>FileTemplater.replaceInFileAndUpdate\<close>: the file is read, the variables are
  substituted (the text is returned as it is when there is no variable), and the result
  is written back. \<open>None\<close> where it throws.
\<close>

definition replaceInFile :: "filesystem \<Rightarrow> path \<Rightarrow> VariablesMap \<Rightarrow> string option" where
  "replaceInFile fs filePath variables =
     (case readFileSync fs filePath of
        None \<Rightarrow> None
      | Some fileContent \<Rightarrow>
          if length variables = 0 then Some fileContent
          else Some (substitute fileContent variables))"

definition replaceInFileAndUpdate :: "filesystem \<Rightarrow> path \<Rightarrow> VariablesMap \<Rightarrow> filesystem option" where
  "replaceInFileAndUpdate fs filePath variables =
     (case replaceInFile fs filePath variables of
        None \<Rightarrow> None
      | Some modifiedContent \<Rightarrow> writeFileSync fs filePath modifiedContent)"

text \<open>
  The arguments of \<^verbatim>\<open>copyTemplateWithVariables\<close>, with the defaults of its
  parameter list filled in by the caller.
\<close>

record CopyArgs =
  copy_checkEmpty :: bool
  copy_from :: path
  copy_isMergePackageJson :: bool
  copy_override :: bool
  copy_packageName :: "string option"
  copy_relativePath :: string
  copy_renameFiles :: "(string \<times> string) list"
  copy_skipFiles :: "string list"
  copy_to :: path
  copy_variables :: VariablesMap
  copy_version :: "version option"

text \<open>
  The prompt about a target that is not empty: cancelling ends the process, the answer
  no throws.
\<close>

definition confirm_override :: "runtime \<Rightarrow> error option" where
  "confirm_override rt =
     (case select_answer rt of
        Cancel \<Rightarrow> Some ProcessExited
      | No \<Rightarrow> Some UserCancelledError
      | Yes \<Rightarrow> None)"

definition check_empty :: "runtime \<Rightarrow> filesystem \<Rightarrow> bool \<Rightarrow> bool \<Rightarrow> path \<Rightarrow> error option" where
  "check_empty rt fs checkEmpty override to =
     (if checkEmpty \<and> \<not> override \<and> existsSync fs to
      then (case isEmptyDir fs to of
              None \<Rightarrow> Some (FileSystemError to)
            | Some is_empty \<Rightarrow> if \<not> is_empty then confirm_override rt else None)
      else None)"

text \<open>\<^verbatim>\<open>renameFiles[file] || file\<close>, then the loop that substitutes the variables.\<close>

definition dist_file_name :: "(string \<times> string) list \<Rightarrow> VariablesMap \<Rightarrow> string \<Rightarrow> string" where
  "dist_file_name renameFiles variables file =
     substitute
       (case map_of renameFiles file of
          Some renamed \<Rightarrow> if renamed \<noteq> [] then renamed else file
        | None \<Rightarrow> file)
       variables"

text \<open>\<^verbatim>\<open>if (distDir !== to) fs.mkdirSync(distDir, { recursive: true })\<close>.\<close>

definition ensure_dist_dir :: "filesystem \<Rightarrow> path \<Rightarrow> path \<Rightarrow> filesystem option" where
  "ensure_dist_dir fs to distFile =
     (if path_dirname distFile \<noteq> to then mkdirSync_recursive fs (path_dirname distFile)
      else Some fs)"

text \<open>
  The last branch of the loop, for a file that is not the package descriptor: it is
  copied, and unless there is no variable or the copy is binary, the variables are
  substituted in the copy; a failure there is logged and nothing more.
\<close>

definition copy_plain_file :: "path \<Rightarrow> path \<Rightarrow> VariablesMap \<Rightarrow> world \<Rightarrow> error + world" where
  "copy_plain_file srcFile distFile variables w =
     (case copyFileSync (w_files w) srcFile distFile of
        None \<Rightarrow> Inl (FileSystemError distFile)
      | Some fs1 \<Rightarrow>
          if length variables > 0 then
            (if \<not> isBinary fs1 distFile then
               (case replaceInFileAndUpdate fs1 distFile variables of
                  None \<Rightarrow> Inr (w\<lparr>w_files := fs1, w_log := w_log w @ [ReplaceFailed distFile]\<rparr>)
                | Some fs2 \<Rightarrow> Inr (w\<lparr>w_files := fs2\<rparr>))
             else Inr (w\<lparr>w_files := fs1\<rparr>))
          else Inr (w\<lparr>w_files := fs1\<rparr>))"

text \<open>The branch for \<^verbatim>\<open>package.json\<close>: merge into an existing descriptor, or copy and patch.\<close>

definition copy_package_json :: "runtime \<Rightarrow> CopyArgs \<Rightarrow> path \<Rightarrow> path \<Rightarrow> world \<Rightarrow> error + world" where
  "copy_package_json rt args srcFile distFile w =
     (let targetPackage = path_resolve (copy_to args) ''package.json''
      in if copy_isMergePackageJson args \<and> existsSync (w_files w) targetPackage
         then (case mergePackageJson rt (w_files w) targetPackage srcFile of
                 Inl e \<Rightarrow> Inl e
               | Inr fs1 \<Rightarrow> Inr (w\<lparr>w_files := fs1\<rparr>))
         else (case copyFileSync (w_files w) srcFile distFile of
                 None \<Rightarrow> Inl (FileSystemError distFile)
               | Some fs1 \<Rightarrow>
                   (case updatePackageJson rt fs1 distFile (copy_version args)
                           (copy_packageName args) of
                      Inl e \<Rightarrow> Inl e
                    | Inr fs2 \<Rightarrow> Inr (w\<lparr>w_files := fs2\<rparr>))))"

text \<open>
  \<^verbatim>\<open>copyTemplateWithVariables\<close>, with the loop over the entries as the second
  function. The copy may write into the tree it reads, so the depth of the recursion
  has no bound in the file system; the first argument bounds it, and running out of it
  is the error \<open>OutOfFuel\<close>.
\<close>

fun copyTemplateWithVariables :: "nat \<Rightarrow> runtime \<Rightarrow> CopyArgs \<Rightarrow> world \<Rightarrow> error + world"
  and copy_entries :: "nat \<Rightarrow> runtime \<Rightarrow> CopyArgs \<Rightarrow> string list \<Rightarrow> world \<Rightarrow> error + world"
where
  "copyTemplateWithVariables 0 rt args w = Inl OutOfFuel"
| "copyTemplateWithVariables (Suc fuel) rt args w =
     (if \<not> existsSync (w_files w) (copy_from args) then Inl (SourceNotFoundError (copy_from args))
      else (case check_empty rt (w_files w) (copy_checkEmpty args) (copy_override args)
                   (copy_to args) of
              Some e \<Rightarrow> Inl e
            | None \<Rightarrow>
          (case mkdirSync_recursive (w_files w) (copy_to args) of
              None \<Rightarrow> Inl (FileSystemError (copy_to args))
            | Some fs1 \<Rightarrow>
          (case readdirSync fs1 (copy_from args) of
              None \<Rightarrow> Inl (FileSystemError (copy_from args))
            | Some files \<Rightarrow> copy_entries fuel rt args files (w\<lparr>w_files := fs1\<rparr>)))))"
| "copy_entries fuel rt args [] w = Inr w"
| "copy_entries fuel rt args (file # files) w =
     (let currentRelativePath = sub_relative (copy_relativePath args) file;
          allSkipFiles = [''dist'', ''node_modules''] @ copy_skipFiles args
      in if file \<in> set allSkipFiles \<or> currentRelativePath \<in> set allSkipFiles
            \<or> is_inherit_file file
         then copy_entries fuel rt args files w
         else
           (let srcFile = entry_path (copy_from args) file;
                distFile = path_resolve (copy_to args)
                             (dist_file_name (copy_renameFiles args) (copy_variables args) file)
            in case ensure_dist_dir (w_files w) (copy_to args) distFile of
                 None \<Rightarrow> Inl (FileSystemError (path_dirname distFile))
               | Some fs1 \<Rightarrow>
             (case statSync fs1 srcFile of
                 None \<Rightarrow> Inl (FileSystemError srcFile)
               | Some stat \<Rightarrow>
             (case (if isDirectory stat then
                      copyTemplateWithVariables fuel rt
                        \<lparr>copy_checkEmpty = False, copy_from = srcFile,
                         copy_isMergePackageJson = False, copy_override = False,
                         copy_packageName = None, copy_relativePath = currentRelativePath,
                         copy_renameFiles = copy_renameFiles args,
                         copy_skipFiles = copy_skipFiles args, copy_to = distFile,
                         copy_variables = copy_variables args, copy_version = None\<rparr>
                        (w\<lparr>w_files := fs1\<rparr>)
                    else if file = ''package.json'' then
                      copy_package_json rt args srcFile distFile (w\<lparr>w_files := fs1\<rparr>)
                    else
                      copy_plain_file srcFile distFile (copy_variables args)
                        (w\<lparr>w_files := fs1\<rparr>)) of
                 Inl e \<Rightarrow> Inl e
               | Inr w1 \<Rightarrow> copy_entries fuel rt args files w1))))"

subsection \<open>The pipeline\<close>

text \<open>\<^verbatim>\<open>step.to ? path.resolve(this.config.targetDir, step.to) : this.config.targetDir\<close>.\<close>

definition target_path :: "ProjectBuilderConfig \<Rightarrow> 's TemplateStep \<Rightarrow> path" where
  "target_path cfg step =
     (case step_to (step_fields step) of
        Some t \<Rightarrow> if t \<noteq> [] then path_resolve (cfg_targetDir cfg) t else cfg_targetDir cfg
      | None \<Rightarrow> cfg_targetDir cfg)"

text \<open>
  The loop \<^verbatim>\<open>for (const additionalStep of additionalSteps)\<close>: each step goes
  to \<^verbatim>\<open>executeStep\<close> (the parameter \<open>ex\<close>), never as a first step, and its
  target is collected when it has a source.
\<close>

fun execute_additional ::
  "('s TemplateStep \<Rightarrow> bool \<Rightarrow> 's \<Rightarrow> error + 's) \<Rightarrow> ProjectBuilderConfig \<Rightarrow> bool
    \<Rightarrow> 's TemplateStep list \<Rightarrow> 's \<Rightarrow> path list \<Rightarrow> error + ('s \<times> path list)" where
  "execute_additional ex cfg collectOutputPaths [] s outputPaths = Inr (s, outputPaths)"
| "execute_additional ex cfg collectOutputPaths (additionalStep # later) s outputPaths =
     (case ex additionalStep False s of
        Inl e \<Rightarrow> Inl e
      | Inr s' \<Rightarrow>
          execute_additional ex cfg collectOutputPaths later s'
            (if collectOutputPaths \<and> step_from (step_fields additionalStep) \<noteq> None
             then outputPaths @ [target_path cfg additionalStep] else outputPaths))"

text \<open>A hook, if there is one, and the steps it yields, if it yields any.\<close>

definition run_hook ::
  "(ProjectBuilderConfig \<Rightarrow> 's \<Rightarrow> error + ('s \<times> 's TemplateStep list option)) option
    \<Rightarrow> ('s TemplateStep \<Rightarrow> bool \<Rightarrow> 's \<Rightarrow> error + 's) \<Rightarrow> ProjectBuilderConfig \<Rightarrow> bool
    \<Rightarrow> 's \<Rightarrow> path list \<Rightarrow> error + ('s \<times> path list)" where
  "run_hook hook ex cfg collectOutputPaths s outputPaths =
     (case hook of
        None \<Rightarrow> Inr (s, outputPaths)
      | Some h \<Rightarrow>
          (case h cfg s of
             Inl e \<Rightarrow> Inl e
           | Inr (s', None) \<Rightarrow> Inr (s', outputPaths)
           | Inr (s', Some additionalSteps) \<Rightarrow>
               execute_additional ex cfg collectOutputPaths additionalSteps s' outputPaths))"

definition executeStepWithHooks ::
  "('s TemplateStep \<Rightarrow> bool \<Rightarrow> 's \<Rightarrow> error + 's) \<Rightarrow> ProjectBuilderConfig \<Rightarrow> bool
    \<Rightarrow> 's TemplateStep \<Rightarrow> bool \<Rightarrow> 's \<Rightarrow> error + ('s \<times> path list)" where
  "executeStepWithHooks ex cfg collectOutputPaths step isFirstStep s =
     (case run_hook (preHook step) ex cfg collectOutputPaths s [] of
        Inl e \<Rightarrow> Inl e
      | Inr (s1, out1) \<Rightarrow>
     (case (if step_from (step_fields step) \<noteq> None
            then (case ex step isFirstStep s1 of
                    Inl e \<Rightarrow> Inl e
                  | Inr s2 \<Rightarrow>
                      Inr (s2, if collectOutputPaths then out1 @ [target_path cfg step] else out1))
            else Inr (s1, out1)) of
        Inl e \<Rightarrow> Inl e
      | Inr (s2, out2) \<Rightarrow> run_hook (postHook step) ex cfg collectOutputPaths s2 out2))"

text \<open>
  \<^verbatim>\<open>executeStep\<close>: the defaults of the step are merged over the configuration,
  the template is copied and the prepare commands of the target are run. The first
  argument is the bound on the depth of the copy.
\<close>

definition option_or :: "'a option \<Rightarrow> 'a option \<Rightarrow> 'a option" where
  "option_or a b = (case a of Some x \<Rightarrow> Some x | None \<Rightarrow> b)"

definition option_else :: "'a option \<Rightarrow> 'a \<Rightarrow> 'a" where
  "option_else a d = (case a of Some x \<Rightarrow> x | None \<Rightarrow> d)"

definition executeStep ::
  "nat \<Rightarrow> runtime \<Rightarrow> ProjectBuilderConfig \<Rightarrow> world TemplateStep \<Rightarrow> bool \<Rightarrow> world \<Rightarrow> error + world" where
  "executeStep fuel rt cfg step isFirstStep w =
     (case step_from (step_fields step) of
        None \<Rightarrow> Inr w
      | Some src \<Rightarrow>
          (case (case step_variables (step_fields step) of
                   None \<Rightarrow> Inr []
                 | Some v \<Rightarrow> resolve_variables v) of
             Inl e \<Rightarrow> Inl e
           | Inr resolvedVariables \<Rightarrow>
               (case copyTemplateWithVariables fuel rt
                       \<lparr>copy_checkEmpty =
                          (if isFirstStep then False
                           else option_else (step_checkEmpty (step_fields step)) False),
                        copy_from = src,
                        copy_isMergePackageJson =
                          option_else (step_isMergePackageJson (step_fields step)) False,
                        copy_override =
                          option_else (option_or (step_override (step_fields step))
                                         (cfg_override cfg)) False,
                        copy_packageName =
                          option_or (step_packageName (step_fields step)) (cfg_packageName cfg),
                        copy_relativePath = [],
                        copy_renameFiles =
                          option_else (step_renameFiles (step_fields step))
                            [(''gitignore'', ''.gitignore'')],
                        copy_skipFiles = option_else (step_skipFiles (step_fields step)) [],
                        copy_to = target_path cfg step,
                        copy_variables = resolvedVariables,
                        copy_version =
                          option_or (step_version (step_fields step)) (cfg_version cfg)\<rparr> w of
                  Inl e \<Rightarrow> Inl e
                | Inr w1 \<Rightarrow>
                    (case executePrepareCommands rt (target_path cfg step) resolvedVariables w1 of
                       (Some e, w2) \<Rightarrow> Inl e
                     | (None, w2) \<Rightarrow> Inr w2))))"

text \<open>\<^verbatim>\<open>build\<close>: the check of the target, then the steps in order.\<close>

fun execute_steps ::
  "nat \<Rightarrow> runtime \<Rightarrow> ProjectBuilderConfig \<Rightarrow> world TemplateStep list \<Rightarrow> bool \<Rightarrow> world
    \<Rightarrow> error + world" where
  "execute_steps fuel rt cfg [] isFirstStep w = Inr w"
| "execute_steps fuel rt cfg (step # later) isFirstStep w =
     (case executeStepWithHooks (executeStep fuel rt cfg) cfg True step isFirstStep w of
        Inl e \<Rightarrow> Inl e
      | Inr (w1, outputPaths) \<Rightarrow> execute_steps fuel rt cfg later False w1)"

definition build :: "nat \<Rightarrow> runtime \<Rightarrow> world ProjectBuilder \<Rightarrow> world \<Rightarrow> error + world" where
  "build fuel rt b w =
     (if length (steps b) = 0 then Inl NoStepsConfigured
      else (case check_empty rt (w_files w) (option_else (cfg_checkEmpty (config b)) True)
                   (option_else (cfg_override (config b)) False)
                   (cfg_targetDir (config b)) of
              Some e \<Rightarrow> Inl e
            | None \<Rightarrow> execute_steps fuel rt (config b) (steps b) True w))"





definition without_hooks :: "'s TemplateStep \<Rightarrow> 's TemplateStep" where
  "without_hooks step = TemplateStep (step_fields step) None None"







subsection \<open>Template layouts\<close>

text \<open>
  For the statements about inheritance: a flat template is a directory that can be
  listed and holds regular files only, \<open>markers\<close> being its inheritance markers in
  listing order; \<open>resolve_markers\<close> is what the resolver makes of such a list.
\<close>

definition regular_entry :: "filesystem \<Rightarrow> path \<Rightarrow> string \<Rightarrow> bool" where
  "regular_entry fs dir file =
     (case statSync fs (entry_path dir file) of Some (File c r w) \<Rightarrow> True | _ \<Rightarrow> False)"

definition flat_template :: "filesystem \<Rightarrow> path \<Rightarrow> string list \<Rightarrow> bool" where
  "flat_template fs dir markers =
     (case readdirSync fs dir of
        None \<Rightarrow> False
      | Some files \<Rightarrow>
          list_all (regular_entry fs dir) files \<and> filter is_inherit_file files = markers)"

definition marker :: "string \<Rightarrow> string" where
  "marker name = ''<inherit:'' @ name @ ''>''"

fun resolve_markers ::
  "runtime \<Rightarrow> filesystem \<Rightarrow> VariablesMap \<Rightarrow> path set \<Rightarrow> string \<Rightarrow> string list
    \<Rightarrow> 's TemplateStep list \<times> log_entry list" where
  "resolve_markers rt fs variables processed relativePath [] = ([], [])"
| "resolve_markers rt fs variables processed relativePath (m # ms) =
     (if butlast (drop 9 m) = [] then resolve_markers rt fs variables processed relativePath ms
      else if existsSync fs (templatePath rt (butlast (drop 9 m))) then
        (case processInheritanceFiles rt fs (templatePath rt (butlast (drop 9 m))) variables
                processed relativePath of
           (nested, log1) \<Rightarrow>
        (case resolve_markers rt fs variables processed relativePath ms of
           (later, log2) \<Rightarrow>
             (nested @ [inherited_step (templatePath rt (butlast (drop 9 m))) relativePath variables]
                @ later,
              log1 @ log2)))
      else
        (case resolve_markers rt fs variables processed relativePath ms of
           (later, log2) \<Rightarrow>
             (later, InheritedTemplateNotFound (templatePath rt (butlast (drop 9 m))) # log2)))"

subsection \<open>A small runtime for the examples\<close>

text \<open>
  A runtime that knows the few descriptors of the examples below: it parses each of
  them to its members and prints members it knows back. The module directory is that
  of an installation under \<^verbatim>\<open>/lepo\<close>, the user answers yes, and a command
  leaves the files as they are: \<^verbatim>\<open>false\<close> exits with code 1,
  \<^verbatim>\<open>missing\<close> cannot be spawned, any other command exits with code 0.
\<close>

definition example_documents :: "(string \<times> descriptor) list" where
  "example_documents =
     [(''{\"dependencies\":{\"x\":\"workspace:*\"}}'',
         [(''dependencies'', JObj [(''x'', JStr ''workspace:*'')])]),
      (''{\"dependencies\":{\"x\":\"^1.2.3\"}}'',
         [(''dependencies'', JObj [(''x'', JStr ''^1.2.3'')])]),
      (''{\"dependencies\":{\"x\":\"1.2.3-beta\"}}'',
         [(''dependencies'', JObj [(''x'', JStr ''1.2.3-beta'')])]),
      (''{\"dependencies\":{\"a\":\"1\"}}'',
         [(''dependencies'', JObj [(''a'', JStr ''1'')])]),
      (''{\"dependencies\":{\"b\":\"2\"}}'',
         [(''dependencies'', JObj [(''b'', JStr ''2'')])])]"

definition example_runtime :: runtime where
  "example_runtime =
     \<lparr>JSON_parse = map_of example_documents,
      JSON_stringify = (\<lambda>doc. case map_of (map (\<lambda>(t, d). (d, t)) example_documents) doc of
                                Some t \<Rightarrow> t | None \<Rightarrow> []),
      module_dirname = [''lepo'', ''dist'', ''core'', ''project-builder''],
      select_answer = Yes,
      spawn = (\<lambda>cmd args cwd fs.
                 (if cmd = ''false'' then Exited 1
                  else if cmd = ''missing'' then SpawnError
                  else Exited 0, fs))\<rparr>"

definition template_a :: path where "template_a = [''lepo'', ''templates'', ''template-a'']"
definition template_b :: path where "template_b = [''lepo'', ''templates'', ''template-b'']"
definition template_c :: path where "template_c = [''lepo'', ''templates'', ''template-c'']"
definition template_d :: path where "template_d = [''lepo'', ''templates'', ''template-d'']"


text \<open>A cycle: a inherits b, b inherits a.\<close>

definition cycle_layout :: filesystem where
  "cycle_layout =
     [(template_a, Dir), (template_a @ [''<inherit:b>''], File [] True True),
      (template_a @ [''file-a.txt''], File [] True True),
      (template_b, Dir), (template_b @ [''<inherit:a>''], File [] True True),
      (template_b @ [''file-b.txt''], File [] True True)]"

text \<open>Two branches with a common ancestor: d inherits a and b, which both inherit c.\<close>

definition diamond_layout :: filesystem where
  "diamond_layout =
     [(template_d, Dir), (template_d @ [''<inherit:a>''], File [] True True),
      (template_d @ [''<inherit:b>''], File [] True True),
      (template_a, Dir), (template_a @ [''<inherit:c>''], File [] True True),
      (template_b, Dir), (template_b @ [''<inherit:c>''], File [] True True),
      (template_c, Dir), (template_c @ [''c.txt''], File [] True True)]"






section \<open>Properties\<close>

subsection \<open>The binary detector\<close>

lemma scan_null_iff:
  "bytesRead \<le> length buffer \<Longrightarrow>
   scan_null buffer bytesRead i = (\<exists>j. i \<le> j \<and> j < bytesRead \<and> buffer ! j = 0)"
proof (induction buffer bytesRead i rule: scan_null.induct)
  case (1 buffer bytesRead i)
  show ?case
  proof (cases "i < bytesRead")
    case False
    then show ?thesis by auto
  next
    case inb: True
    show ?thesis
    proof (cases "buffer ! i = 0")
      case True
      with inb 1(2) show ?thesis by auto
    next
      case False
      with inb 1 have "scan_null buffer bytesRead i =
          (\<exists>j. Suc i \<le> j \<and> j < bytesRead \<and> buffer ! j = 0)"
        by simp
      also have "\<dots> = (\<exists>j. i \<le> j \<and> j < bytesRead \<and> buffer ! j = 0)"
        using False by (metis Suc_leD Suc_leI le_neq_implies_less)
      finally show ?thesis .
    qed
  qed
qed


lemma fd_read_scan:
  "scan_null (take (min 512 (length content)) content @
      replicate (512 - min 512 (length content)) 0) (min 512 (length content)) 0 =
   (\<exists>i < min 512 (length content). content ! i = 0)"
proof -
  let ?n = "min 512 (length content)"
  let ?buffer = "take ?n content @ replicate (512 - ?n) (0::byte)"
  have len: "?n \<le> length ?buffer" by simp
  have nth: "?buffer ! j = content ! j" if "j < ?n" for j
    using that by (simp add: nth_append)
  have "scan_null ?buffer ?n 0 = (\<exists>j. 0 \<le> j \<and> j < ?n \<and> ?buffer ! j = 0)"
    by (rule scan_null_iff [OF len])
  also have "\<dots> = (\<exists>i < ?n. content ! i = 0)"
    using nth by auto
  finally show ?thesis .
qed

lemma isBinary_readable_zero:
  "isBinary fs filePath =
     (\<exists>content w. map_of fs filePath = Some (File content True w) \<and>
        (\<exists>i < min 512 (length content). content ! i = 0))"
proof (cases "map_of fs filePath")
  case None
  then show ?thesis by (simp add: isBinary_def)
next
  case (Some n)
  show ?thesis
  proof (cases n)
    case Dir
    with Some show ?thesis by (simp add: isBinary_def)
  next
    case (File content r w)
    with Some show ?thesis
      using fd_read_scan [of content]
      by (cases r) (simp_all add: isBinary_def fd_read_def Let_def)
  qed
qed

text \<open>
  C7. The detector answers true exactly when the path is a readable regular file and
  one of the bytes read, the first \<open>min 512 (length content)\<close> of it, is zero. A
  path that cannot be opened or read (missing, a directory, unreadable) gives false.
\<close>

theorem isBinary_iff:
  "isBinary fs filePath =
     (\<exists>content w. map_of fs filePath = Some (File content True w) \<and>
        (\<exists>i < min 512 (length content). content ! i = 0))"
  by (rule isBinary_readable_zero)

lemma isBinary_examples:
  "isBinary [([''t'', ''a.bin''], File [0x89, 0x50, 0x00, 0x47] True True)] [''t'', ''a.bin'']"
  "\<not> isBinary [([''t'', ''a.txt''], File [0x68, 0x69] True True)] [''t'', ''a.txt'']"
  "\<not> isBinary [([''t'', ''a.bin''], File [0x89, 0x50, 0x00, 0x47] False True)] [''t'', ''a.bin'']"
  "\<not> isBinary [([''t''], Dir)] [''t'']"
  "\<not> isBinary [] [''t'']"
  by (simp_all add: isBinary_def fd_read_def)

subsection \<open>Substitution\<close>

lemma backslash_special: "regex_special (CHR 0x5C)"
  by (simp add: regex_special_def)

lemma regex_literal_plain:
  "\<not> regex_special c \<Longrightarrow> regex_literal (c # cs) = map_option ((#) c) (regex_literal cs)"
  using backslash_special by (cases cs) auto

lemma regex_literal_escaped:
  "regex_special c \<Longrightarrow> regex_literal (CHR 0x5C # c # cs) = map_option ((#) c) (regex_literal cs)"
  by simp

lemma regex_literal_escapeRegExp: "regex_literal (escapeRegExp s) = Some s"
proof (induction s)
  case Nil
  then show ?case by (simp add: escapeRegExp_def)
next
  case (Cons c s)
  have step: "escapeRegExp (c # s) =
      (if regex_special c then CHR 0x5C # c # escapeRegExp s else c # escapeRegExp s)"
    by (simp add: escapeRegExp_def)
  show ?case
  proof (cases "regex_special c")
    case True
    then show ?thesis using Cons.IH step regex_literal_escaped by simp
  next
    case False
    then show ?thesis using Cons.IH step regex_literal_plain by simp
  qed
qed

lemma replace_key_literal:
  "replace_key key val text = replaceAll (placeholder key) (String_of val) text"
  by (simp add: replace_key_def regex_literal_escapeRegExp)

lemma expand_replacement_plain:
  "CHR ''$'' \<notin> set repl \<Longrightarrow> expand_replacement matched pre post repl = repl"
  by (induction matched pre post repl rule: expand_replacement.induct) auto

lemma replace_from_plain:
  "CHR ''$'' \<notin> set repl \<Longrightarrow> replace_from lit repl pre s = splice_all lit repl s"
  by (induction lit repl pre s rule: replace_from.induct) (auto simp: expand_replacement_plain)


lemma splice_all_absent: "\<not> sublist lit s \<Longrightarrow> splice_all lit new s = s"
proof (induction lit new s rule: splice_all.induct)
  case (1 lit new)
  then show ?case by simp
next
  case (2 lit new c cs)
  then show ?case  by (auto simp: sublist_Cons_right)
qed

lemma not_prefix_before_first:
  assumes "lit \<noteq> []" and "\<not> sublist lit ((c # p) @ butlast lit)"
  shows "\<not> prefix lit (c # p @ lit @ rest)"
proof
  assume pre: "prefix lit (c # p @ lit @ rest)"
  have split: "c # p @ lit @ rest = ((c # p) @ butlast lit) @ (last lit # rest)"
    using assms(1) by simp
  from pre have "prefix lit ((c # p) @ butlast lit) \<or>
      (\<exists>us. lit = ((c # p) @ butlast lit) @ us \<and> prefix us (last lit # rest))"
    unfolding split prefix_append by simp
  then show False
  proof
    assume "prefix lit ((c # p) @ butlast lit)"
    then show False using assms(2) by (meson prefix_imp_sublist)
  next
    assume "\<exists>us. lit = ((c # p) @ butlast lit) @ us \<and> prefix us (last lit # rest)"
    then obtain us where eq: "lit = ((c # p) @ butlast lit) @ us" by blast
    then have "length lit = Suc (length p) + (length lit - 1) + length us"
      by (metis length_append length_butlast length_Cons)
    with assms(1) have "us = []" "p = []" by (cases lit; auto)+
    with eq have "prefix lit ((c # p) @ butlast lit)" by simp
    then show False using assms(2) by (meson prefix_imp_sublist)
  qed
qed

lemma splice_all_first:
  "lit \<noteq> [] \<Longrightarrow> \<not> sublist lit (p @ butlast lit) \<Longrightarrow>
   splice_all lit new (p @ lit @ rest) = p @ new @ splice_all lit new rest"
proof (induction p)
  case Nil
  then show ?case by (cases lit) auto
next
  case (Cons c p)
  have np: "\<not> prefix lit (c # p @ lit @ rest)"
    using not_prefix_before_first [OF Cons.prems(1)] Cons.prems(2) by blast
  have "\<not> sublist lit (p @ butlast lit)"
    using Cons.prems(2) by (simp add: sublist_Cons_right)
  with Cons.IH Cons.prems(1) np show ?case by simp
qed

lemma replace_from_absent: "\<not> sublist lit s \<Longrightarrow> replace_from lit repl pre s = s"
  by (induction lit repl pre s rule: replace_from.induct) (auto simp: sublist_Cons_right)

lemma replace_key_absent:
  "\<not> sublist (placeholder key) text \<Longrightarrow> replace_key key val text = text"
  by (simp add: replace_key_literal replaceAll_def replace_from_absent)

text \<open>A text in which no token of the map occurs is left as it is.\<close>

lemma substitute_absent:
  "list_all (\<lambda>(key, val). \<not> sublist (placeholder key) text) variables \<Longrightarrow>
   substitute text variables = text"
  unfolding substitute_def
  by (induction variables) (auto simp: replace_key_absent)

text \<open>
  A value without a dollar sign is inserted as it stands, so one round over a key is
  the replacement the specification describes.
\<close>

lemma replace_key_plain:
  "CHR ''$'' \<notin> set (String_of val) \<Longrightarrow>
   replace_key key val text = splice_all (placeholder key) (String_of val) text"
  by (simp add: replace_key_literal replaceAll_def replace_from_plain)

lemma substitute_examples:
  "substitute ''{{name}}.txt'' [(''name'', VStr ''x'')] = ''x.txt''"
  "substitute ''# {{name}}'' [(''name'', VStr ''x'')] = ''# x''"
  "substitute ''{{missing}}'' [(''name'', VStr ''x'')] = ''{{missing}}''"
  "substitute ''{{ name }} {{name}}'' [('' name '', VStr ''x'')] = ''{{ name }} x''"
  "substitute ''{{n}}{{b}}'' [(''n'', VNum (-42)), (''b'', VBool True)] = ''-42true''"
  by code_simp+

text \<open>
  C4. The value of a variable is handed to \<^verbatim>\<open>replace\<close> as a replacement
  template, without escaping: with the value \<^verbatim>\<open>a$$b\<close> for
  \<^verbatim>\<open>name\<close>, \<^verbatim>\<open>{{name}}.txt\<close> becomes \<^verbatim>\<open>a$b.txt\<close>, and with the
  value \<^verbatim>\<open>$&\<close> the token stays where it was; \<^verbatim>\<open>String(value)\<close> is
  neither.
\<close>

theorem substitute_dollar_value:
  "substitute ''{{name}}.txt'' [(''name'', VStr ''a$$b'')] = ''a$b.txt'' \<and>
   String_of (VStr ''a$$b'') = ''a$$b'' \<and>
   substitute ''{{name}}.txt'' [(''name'', VStr ''$&'')] = ''{{name}}.txt''"
  by code_simp

subsection \<open>Merging package descriptors\<close>












lemma mergePackageJson_example:
  "mergePackageJson example_runtime
     [([''out''], Dir),
      ([''out'', ''package.json''], File (encode ''{\"dependencies\":{\"a\":\"1\"}}'') True True),
      ([''t'', ''package.json''], File (encode ''{\"dependencies\":{\"b\":\"2\"}}'') True True)]
     [''out'', ''package.json''] [''t'', ''package.json''] =
   Inr [([''out''], Dir),
      ([''out'', ''package.json''],
         File (encode (''{\"dependencies\":{\"b\":\"2\"}}'' @ [CHR 0x0A])) True True),
      ([''t'', ''package.json''], File (encode ''{\"dependencies\":{\"b\":\"2\"}}'') True True)]"
  by code_simp

subsection \<open>Locking the workspace version\<close>






lemma lockVersion_examples:
  "lockVersion (Some (VersionString ''1.2.3'')) ''\"workspace:*\"'' = ''\"^1.2.3\"''"
  "lockVersion (Some (VersionString ''1.2.3-beta'')) ''\"workspace:*\"'' = ''\"1.2.3-beta\"''"
  by code_simp+


subsection \<open>Inheritance\<close>

lemma marker_name [simp]: "butlast (drop 9 (marker name)) = name"
  by (simp add: marker_def butlast_append)

lemma marker_is_inherit_file [simp]: "is_inherit_file (marker name)"
  by (simp add: is_inherit_file_def marker_def suffix_def)

lemma flat_entries:
  assumes "list_all (regular_entry fs dir) files"
  shows "inheritance_entries rt fs dir variables processed relativePath files =
         resolve_markers rt fs variables processed relativePath (filter is_inherit_file files)"
  using assms
proof (induction files)
  case Nil
  then show ?case by simp
next
  case (Cons f files)
  then obtain c r w where st: "statSync fs (entry_path dir f) = Some (File c r w)"
    by (auto simp: regular_entry_def split: option.splits node.splits)
  with Cons show ?case
    by (simp add: Let_def split: prod.splits)
qed

lemma processInheritanceFiles_flat:
  assumes "flat_template fs dir markers" and "dir \<notin> processed"
  shows "processInheritanceFiles rt fs dir variables processed relativePath =
         resolve_markers rt fs variables (insert dir processed) relativePath markers"
  using assms
  by (auto simp: processInheritanceFiles.simps flat_template_def flat_entries split: option.splits)

lemma flat_template_exists: "flat_template fs dir markers \<Longrightarrow> existsSync fs dir"
  by (auto simp: flat_template_def existsSync_def readdirSync_def split: option.splits)

lemma sub_relative_root [simp]: "sub_relative [] = (\<lambda>f. f)"
  by (rule ext) (simp add: sub_relative_def)





lemma inherited_step_from [simp]:
  "step_from (step_fields (inherited_step p rel variables)) = Some p"
  by (simp add: inherited_step_def no_fields_def)



lemma example_template_paths:
  "templatePath example_runtime ''a'' = template_a"
  "templatePath example_runtime ''b'' = template_b"
  "templatePath example_runtime ''c'' = template_c"
  by code_simp+


text \<open>
  C2. The resolver is a total function: each call on a directory that can be listed
  adds it to its own copy of the processed set, of which the table has finitely many
  paths to offer (the termination proof above). A call on a path already in its
  processed set returns at once, with no step and the warning of a circular
  inheritance. So where the templates a and b are flat and inherit each other,
  resolving a gives two steps, that of a (reached again through b) and that of
  b, each once, and one warning.
\<close>

theorem cycle_resolves_once:
  assumes a: "flat_template fs (templatePath rt a) [marker b]"
    and b: "flat_template fs (templatePath rt b) [marker a]"
    and names: "a \<noteq> []" "b \<noteq> []"
    and different: "templatePath rt a \<noteq> templatePath rt b"
  shows "processInheritanceFiles rt fs (templatePath rt a) variables {} [] =
           ([inherited_step (templatePath rt a) [] variables,
             inherited_step (templatePath rt b) [] variables :: 's TemplateStep],
            [CircularInheritance (templatePath rt a)])
       \<and> (\<forall>p processed rel. p \<in> processed \<longrightarrow>
             processInheritanceFiles rt fs p variables processed rel =
               ([] :: 's TemplateStep list, [CircularInheritance p]))"
proof -
  let ?A = "templatePath rt a" and ?B = "templatePath rt b"
  have again: "processInheritanceFiles rt fs p variables processed rel =
      ([] :: 's TemplateStep list, [CircularInheritance p])" if "p \<in> processed" for p processed rel
    using that by (simp add: processInheritanceFiles.simps)
  have B: "processInheritanceFiles rt fs ?B variables {?A} [] =
      ([inherited_step ?A [] variables :: 's TemplateStep], [CircularInheritance ?A])"
    using different names flat_template_exists [OF a]
    by (simp add: processInheritanceFiles_flat [OF b] again)
  have A: "processInheritanceFiles rt fs ?A variables {} [] =
      ([inherited_step ?A [] variables, inherited_step ?B [] variables :: 's TemplateStep],
       [CircularInheritance ?A])"
    using names flat_template_exists [OF b]
    by (simp add: processInheritanceFiles_flat [OF a] B)
  from A again show ?thesis by blast
qed

theorem cycle_resolves_once_witness:
  "processInheritanceFiles example_runtime cycle_layout template_a [] {} [] =
     ([inherited_step template_a [] [], inherited_step template_b [] [] :: unit TemplateStep],
      [CircularInheritance template_a])
   \<and> length (filter (\<lambda>step. step_from (step_fields step) = Some template_b)
        (fst (processInheritanceFiles example_runtime cycle_layout template_a [] {} []
               :: unit TemplateStep list \<times> log_entry list))) = 1
   \<and> processInheritanceFiles example_runtime cycle_layout template_a [] {template_a} [] =
     ([] :: unit TemplateStep list, [CircularInheritance template_a])"
proof -
  have a: "flat_template cycle_layout (templatePath example_runtime ''a'') [marker ''b'']"
    by code_simp
  have b: "flat_template cycle_layout (templatePath example_runtime ''b'') [marker ''a'']"
    by code_simp
  have n: "''a'' \<noteq> []" "''b'' \<noteq> []" by simp_all
  have d: "templatePath example_runtime ''a'' \<noteq> templatePath example_runtime ''b''"
    by code_simp
  have ab: "template_a \<noteq> template_b" by code_simp
  show ?thesis
    using cycle_resolves_once [OF a b n d, of "[]", where 's = unit] ab
    by (simp add: example_template_paths)
qed

text \<open>
  The processed set is copied for each branch: a template that two sibling branches
  both inherit is resolved in each of them, with no warning.
\<close>

lemma sibling_branches_share_an_ancestor:
  assumes d: "flat_template fs D [marker a, marker b]"
    and a: "flat_template fs (templatePath rt a) [marker c]"
    and b: "flat_template fs (templatePath rt b) [marker c]"
    and c: "flat_template fs (templatePath rt c) []"
    and names: "a \<noteq> []" "b \<noteq> []" "c \<noteq> []"
    and different: "templatePath rt a \<noteq> templatePath rt b"
  shows "processInheritanceFiles rt fs D variables {} [] =
           ([inherited_step (templatePath rt c) [] variables,
             inherited_step (templatePath rt a) [] variables,
             inherited_step (templatePath rt c) [] variables,
             inherited_step (templatePath rt b) [] variables :: 's TemplateStep], [])"
proof -
  let ?A = "templatePath rt a" and ?B = "templatePath rt b" and ?C = "templatePath rt c"
  have ne: "D \<noteq> ?A" "D \<noteq> ?B" "D \<noteq> ?C" "?A \<noteq> ?C" "?B \<noteq> ?C"
    using a b c d names by (auto simp: flat_template_def marker_def split: option.splits)
  have C: "processInheritanceFiles rt fs ?C variables processed [] =
      ([] :: 's TemplateStep list, [])" if "?C \<notin> processed" for processed
    using that by (simp add: processInheritanceFiles_flat [OF c])
  have A: "processInheritanceFiles rt fs ?A variables {D} [] =
      ([inherited_step ?C [] variables :: 's TemplateStep], [])"
    using ne names flat_template_exists [OF c]
    by (simp add: processInheritanceFiles_flat [OF a] C)
  have B: "processInheritanceFiles rt fs ?B variables {D} [] =
      ([inherited_step ?C [] variables :: 's TemplateStep], [])"
    using ne names flat_template_exists [OF c]
    by (simp add: processInheritanceFiles_flat [OF b] C)
  show ?thesis
    using names flat_template_exists [OF a] flat_template_exists [OF b]
    by (simp add: processInheritanceFiles_flat [OF d] A B)
qed

lemma diamond_example:
  "processInheritanceFiles example_runtime diamond_layout template_d [] {} [] =
     ([inherited_step template_c [] [], inherited_step template_a [] [],
       inherited_step template_c [] [], inherited_step template_b [] [] :: unit TemplateStep], [])"
proof -
  have d: "flat_template diamond_layout template_d [marker ''a'', marker ''b'']" by code_simp
  have a: "flat_template diamond_layout (templatePath example_runtime ''a'') [marker ''c'']"
    by code_simp
  have b: "flat_template diamond_layout (templatePath example_runtime ''b'') [marker ''c'']"
    by code_simp
  have c: "flat_template diamond_layout (templatePath example_runtime ''c'') []" by code_simp
  have n: "''a'' \<noteq> []" "''b'' \<noteq> []" "''c'' \<noteq> []" by simp_all
  have ne: "templatePath example_runtime ''a'' \<noteq> templatePath example_runtime ''b''"
    by code_simp
  show ?thesis
    using sibling_branches_share_an_ancestor [OF d a b c n ne, of "[]", where 's = unit]
    by (simp add: example_template_paths)
qed


subsection \<open>Copying files\<close>








subsection \<open>Hooks\<close>


lemma step_fields_without_hooks [simp]: "step_fields (without_hooks step) = step_fields step"
  by (simp add: without_hooks_def)

lemma target_path_without_hooks [simp]: "target_path cfg (without_hooks step) = target_path cfg step"
  by (simp add: target_path_def)

lemma executeStep_without_hooks [simp]:
  "executeStep fuel rt cfg (without_hooks step) isFirstStep w = executeStep fuel rt cfg step isFirstStep w"
  unfolding executeStep_def step_fields_without_hooks target_path_without_hooks
  by (rule refl)



subsection \<open>Prepare commands\<close>



















subsection \<open>Registration\<close>

lemma addStep_validates:
  "addStep step b = Inr b' \<Longrightarrow>
   step_from (step_fields step) \<noteq> None \<or> preHook step \<noteq> None \<or> postHook step \<noteq> None"
  by (auto simp: addStep_def split: if_splits)

text \<open>
  C6. \<^verbatim>\<open>addStep\<close> refuses a step with neither \<^verbatim>\<open>from\<close> nor a hook, but
  \<^verbatim>\<open>addSteps\<close> pushes its argument unchecked: the builder then holds such a step.
\<close>

theorem addSteps_unvalidated:
  "addStep (TemplateStep no_fields None None) (create cfg) = Inl ConfigurationError \<and>
   addSteps [TemplateStep no_fields None None] (create cfg) =
     Inr \<lparr>config = cfg, steps = [TemplateStep no_fields None None]\<rparr>"
  by (simp add: addStep_def addSteps_def create_def no_fields_def)

end
